theory Spec2Isabelle
  imports Main "HOL-Library.Sublist"
begin

section \<open>Python values, errors and the host environment\<close>

text \<open>
  The module \<^verbatim>\<open>openx/utils/spec.py\<close> works on plain Python data: a \<^verbatim>\<open>ModuleSpec\<close> is
  "just a dictionary" with the keys \<^verbatim>\<open>module\<close>, \<^verbatim>\<open>name\<close>, \<^verbatim>\<open>args\<close> and \<^verbatim>\<open>kwargs\<close>
  (the design document calls the first two the namespace and the identifier).
  Values are a tree: a dictionary is an association list in insertion order whose keys
  are strings, a set is the list of its elements, a callable is a handle into the host
  environment, and \<^verbatim>\<open>functools.partial\<close> objects carry their function and bound arguments.
\<close>

datatype pyval =
    PNone
  | PBool bool
  | PInt int
  | PStr string
  | PList "pyval list"
  | PTuple "pyval list"
  | PSet "pyval list"
  | PDict "(string \<times> pyval) list"
  | PFunc nat
  | PPartial pyval "pyval list" "(string \<times> pyval) list"
  | PObj nat

type_synonym pydict = "(string \<times> pyval) list"

text \<open>
  The exceptions the module raises or lets through. The three \<^verbatim>\<open>ValueError\<close>s of the
  source are kept apart by the place that raises them; \<open>Raised\<close> is an exception thrown
  by a constructible itself.
\<close>

datatype error =
    AssertionError
  | ValueError_infer
  | ValueError_spec
  | ValueError_import
  | ValueError_unpack
  | KeyError string
  | TypeError
  | AttributeError
  | IndexError
  | Raised nat

text \<open>
  What the code does to the outside world, in the order it does it: a lookup through
  \<^verbatim>\<open>importlib\<close> and the invocation of a constructible with its final arguments.
\<close>

datatype event =
    Resolve pyval pyval
  | Invoke nat "pyval list" pydict

type_synonym 'a res = "(error + 'a) \<times> event list"

text \<open>
  The host environment: \<open>import_from m n\<close> is \<^verbatim>\<open>getattr(importlib.import_module(m), n)\<close>
  (\<open>None\<close> when either step raises), \<open>full_name f\<close> gives \<^verbatim>\<open>__module__\<close> and
  \<^verbatim>\<open>__name__\<close> of a callable when it has both, and \<open>call_fn f args kwargs\<close> is what
  calling \<open>f\<close> returns or raises.
\<close>

record env =
  import_from :: "string \<Rightarrow> string \<Rightarrow> pyval option"
  full_name :: "nat \<Rightarrow> (string \<times> string) option"
  call_fn :: "nat \<Rightarrow> pyval list \<Rightarrow> pydict \<Rightarrow> error + pyval"

section \<open>Dictionaries, subscripts, iteration and calls\<close>

text \<open>\<^verbatim>\<open>d[k] = v\<close> on a dictionary: an existing key keeps its place, a new key goes last.\<close>

fun dict_set :: "pydict \<Rightarrow> string \<Rightarrow> pyval \<Rightarrow> pydict" where
  "dict_set [] k v = [(k, v)]"
| "dict_set ((k', v') # d) k v = (if k' = k then (k, v) # d else (k', v') # dict_set d k v)"

text \<open>\<^verbatim>\<open>{**a, **b}\<close>: the entries of \<open>b\<close> are stored into \<open>a\<close> one by one.\<close>

fun dict_merge :: "pydict \<Rightarrow> pydict \<Rightarrow> pydict" where
  "dict_merge a [] = a"
| "dict_merge a ((k, v) # b) = dict_merge (dict_set a k v) b"

text \<open>\<^verbatim>\<open>d[k]\<close> with a string \<open>k\<close>: only a dictionary accepts it.\<close>

fun getitem :: "pyval \<Rightarrow> string \<Rightarrow> error + pyval" where
  "getitem (PDict d) k = (case map_of d k of None \<Rightarrow> Inl (KeyError k) | Some v \<Rightarrow> Inr v)"
| "getitem _ k = Inl TypeError"


text \<open>Iterating a value, as \<^verbatim>\<open>*x\<close> and \<^verbatim>\<open>str.join\<close> do.\<close>

fun iterate :: "pyval \<Rightarrow> error + pyval list" where
  "iterate (PList xs) = Inr xs"
| "iterate (PTuple xs) = Inr xs"
| "iterate (PSet xs) = Inr xs"
| "iterate (PStr s) = Inr (map (\<lambda>c. PStr [c]) s)"
| "iterate (PDict d) = Inr (map (\<lambda>(k, v). PStr k) d)"
| "iterate _ = Inl TypeError"

text \<open>\<^verbatim>\<open>**x\<close> needs a mapping.\<close>

fun kw_unpack :: "pyval \<Rightarrow> error + pydict" where
  "kw_unpack (PDict d) = Inr d"
| "kw_unpack _ = Inl TypeError"

fun truthy :: "pyval \<Rightarrow> bool" where
  "truthy PNone = False"
| "truthy (PBool b) = b"
| "truthy (PInt i) = (i \<noteq> 0)"
| "truthy (PStr s) = (s \<noteq> [])"
| "truthy (PList xs) = (xs \<noteq> [])"
| "truthy (PTuple xs) = (xs \<noteq> [])"
| "truthy (PSet xs) = (xs \<noteq> [])"
| "truthy (PDict d) = (d \<noteq> [])"
| "truthy _ = True"

fun callable :: "pyval \<Rightarrow> bool" where
  "callable (PFunc f) = True"
| "callable (PPartial f a kw) = True"
| "callable _ = False"

text \<open>
  Calling a value. A \<^verbatim>\<open>partial\<close> puts its bound positional arguments first and stores the
  call's keywords over its own:
  \<^verbatim>\<open>self.func(*self.args, *args, **{**self.keywords, **keywords})\<close>.
\<close>

fun call :: "env \<Rightarrow> pyval \<Rightarrow> pyval list \<Rightarrow> pydict \<Rightarrow> pyval res" where
  "call E (PFunc f) args kw = (call_fn E f args kw, [Invoke f args kw])"
| "call E (PPartial g a k) args kw = call E g (a @ args) (dict_merge k kw)"
| "call E _ args kw = (Inl TypeError, [])"

text \<open>\<^verbatim>\<open>partial(cls, *args, **kwargs)\<close>.\<close>

definition partial :: "pyval \<Rightarrow> pyval \<Rightarrow> pyval \<Rightarrow> error + pyval" where
  "partial cls args kwargs =
     (case iterate args of
        Inl e \<Rightarrow> Inl e
      | Inr a \<Rightarrow>
         (case kw_unpack kwargs of
            Inl e \<Rightarrow> Inl e
          | Inr kw \<Rightarrow> if callable cls then Inr (PPartial cls a kw) else Inl TypeError))"

section \<open>Strings\<close>

text \<open>\<^verbatim>\<open>s.split(c)\<close> for a separator of one character.\<close>

fun split_on :: "char \<Rightarrow> string \<Rightarrow> string list" where
  "split_on c [] = [[]]"
| "split_on c (x # xs) =
     (if x = c then [] # split_on c xs
      else (case split_on c xs of [] \<Rightarrow> [[x]] | w # ws \<Rightarrow> (x # w) # ws))"

text \<open>\<^verbatim>\<open>sep.join(items)\<close> on strings.\<close>

fun join :: "string \<Rightarrow> string list \<Rightarrow> string" where
  "join sep [] = []"
| "join sep [s] = s"
| "join sep (s # t # ss) = s @ sep @ join sep (t # ss)"

fun show_nat :: "nat \<Rightarrow> string" where
  "show_nat n =
     (if n < 10 then [''0123456789'' ! n]
      else show_nat (n div 10) @ [''0123456789'' ! (n mod 10)])"

declare show_nat.simps [simp del]

definition show_int :: "int \<Rightarrow> string" where
  "show_int i = (if i < 0 then CHR ''-'' # show_nat (nat (- i)) else show_nat (nat i))"

text \<open>
  \<^verbatim>\<open>format(v)\<close> inside an f-string. The text of the scalars is written out; the text of
  containers and objects (their \<^verbatim>\<open>repr\<close>) is left to the parameter \<open>fmt\<close>.
\<close>

fun py_format :: "(pyval \<Rightarrow> string) \<Rightarrow> pyval \<Rightarrow> string" where
  "py_format fmt PNone = ''None''"
| "py_format fmt (PBool b) = (if b then ''True'' else ''False'')"
| "py_format fmt (PInt i) = show_int i"
| "py_format fmt (PStr s) = s"
| "py_format fmt v = fmt v"

text \<open>The items of \<^verbatim>\<open>str.join\<close> must be strings.\<close>

fun as_strings :: "pyval list \<Rightarrow> error + string list" where
  "as_strings [] = Inr []"
| "as_strings (PStr s # xs) = (case as_strings xs of Inl e \<Rightarrow> Inl e | Inr ss \<Rightarrow> Inr (s # ss))"
| "as_strings (_ # xs) = Inl TypeError"

section \<open>ModuleSpec\<close>

definition ModuleSpec :: "pyval \<Rightarrow> pyval \<Rightarrow> pyval \<Rightarrow> pyval \<Rightarrow> pyval" where
  "ModuleSpec m n a kw = PDict [(''module'', m), (''name'', n), (''args'', a), (''kwargs'', kw)]"

fun infer_full_name :: "env \<Rightarrow> pyval \<Rightarrow> error + (string \<times> string)" where
  "infer_full_name E (PFunc f) =
     (case full_name E f of None \<Rightarrow> Inl ValueError_infer | Some mn \<Rightarrow> Inr mn)"
| "infer_full_name E _ = Inl ValueError_infer"

fun import_from_string :: "env \<Rightarrow> pyval \<Rightarrow> pyval \<Rightarrow> pyval res" where
  "import_from_string E (PStr m) (PStr n) =
     (case import_from E m n of
        None \<Rightarrow> (Inl ValueError_import, [Resolve (PStr m) (PStr n)])
      | Some c \<Rightarrow> (Inr c, [Resolve (PStr m) (PStr n)]))"
| "import_from_string E m n = (Inl ValueError_import, [Resolve m n])"

text \<open>
  \<open>create\<close> receives the source, the tuple bound to \<^verbatim>\<open>*args\<close> and the dictionary bound to
  \<^verbatim>\<open>**kwargs\<close>.
\<close>

fun create :: "env \<Rightarrow> pyval \<Rightarrow> pyval list \<Rightarrow> pydict \<Rightarrow> error + pyval" where
  "create E (PStr s) args kwargs =
     (if count_list s (CHR '':'') = 1 then
        (case split_on (CHR '':'') s of
           [m, n] \<Rightarrow> Inr (ModuleSpec (PStr m) (PStr n) (PTuple args) (PDict kwargs))
         | _ \<Rightarrow> Inl ValueError_unpack)
      else Inl AssertionError)"
| "create E c args kwargs =
     (case infer_full_name E c of
        Inl e \<Rightarrow> Inl e
      | Inr (m, n) \<Rightarrow> Inr (ModuleSpec (PStr m) (PStr n) (PTuple args) (PDict kwargs)))"

text \<open>
  The test of line 65, \<^verbatim>\<open>set(spec.keys()) != {"module", "name", "args", "kwargs"}\<close>: the
  result is whether the key set is the expected one; a value without \<^verbatim>\<open>keys\<close> raises.
\<close>

fun spec_keys :: "pyval \<Rightarrow> error + bool" where
  "spec_keys (PDict d) = Inr (set (map fst d) = {''module'', ''name'', ''args'', ''kwargs''})"
| "spec_keys _ = Inl AttributeError"

fun instantiate :: "env \<Rightarrow> pyval \<Rightarrow> pyval res" where
  "instantiate E PNone = (Inr PNone, [])"
| "instantiate E spec =
     (case spec_keys spec of
        Inl e \<Rightarrow> (Inl e, [])
      | Inr False \<Rightarrow> (Inl ValueError_spec, [])
      | Inr True \<Rightarrow>
         (case getitem spec ''module'' of
            Inl e \<Rightarrow> (Inl e, [])
          | Inr m \<Rightarrow>
             (case getitem spec ''name'' of
                Inl e \<Rightarrow> (Inl e, [])
              | Inr n \<Rightarrow>
                 (case import_from_string E m n of
                    (Inl e, t) \<Rightarrow> (Inl e, t)
                  | (Inr cls, t) \<Rightarrow>
                     (case getitem spec ''args'' of
                        Inl e \<Rightarrow> (Inl e, t)
                      | Inr a \<Rightarrow>
                         (case getitem spec ''kwargs'' of
                            Inl e \<Rightarrow> (Inl e, t)
                          | Inr kw \<Rightarrow> (partial cls a kw, t)))))))"

definition is_module_spec :: "pyval \<Rightarrow> bool" where
  "is_module_spec d =
     (case d of
        PDict kvs \<Rightarrow>
          list_all (\<lambda>k. k \<in> set (map fst kvs)) [''module'', ''name'', ''args'', ''kwargs'']
          \<and> length kvs = 4
      | _ \<Rightarrow> False)"

text \<open>
  \<open>to_string\<close> evaluates the pieces of its f-string from left to right, so the first
  piece that raises decides the error.
\<close>

definition to_string :: "(pyval \<Rightarrow> string) \<Rightarrow> pyval \<Rightarrow> error + string" where
  "to_string fmt spec =
     (case getitem spec ''module'' of
        Inl e \<Rightarrow> Inl e
      | Inr m \<Rightarrow>
     (case getitem spec ''name'' of
        Inl e \<Rightarrow> Inl e
      | Inr n \<Rightarrow>
     (case getitem spec ''args'' of
        Inl e \<Rightarrow> Inl e
      | Inr a \<Rightarrow>
     (case iterate a of
        Inl e \<Rightarrow> Inl e
      | Inr items \<Rightarrow>
     (case as_strings items of
        Inl e \<Rightarrow> Inl e
      | Inr ss \<Rightarrow>
     (case getitem spec ''kwargs'' of
        Inl e \<Rightarrow> Inl e
      | Inr kw \<Rightarrow>
     (case kw of
        PDict kvs \<Rightarrow>
          Inr (py_format fmt m @ '':'' @ py_format fmt n @ ''('' @ join '', '' ss
               @ (if truthy a \<and> truthy kw then '', '' else '''')
               @ join '', '' (map (\<lambda>(k, v). k @ ''='' @ py_format fmt v) kvs) @ '')'')
      | _ \<Rightarrow> Inl AttributeError)))))))"

section \<open>Overriding by dotted path\<close>






section \<open>Recursive instantiation\<close>

lemma size_map_of:
  "map_of d k = Some v \<Longrightarrow> size v < Suc (size_list (size_prod (\<lambda>_. 0) size) d)"
  by (induction d) (auto split: if_splits)

lemma size_getitem: "getitem obj k = Inr a \<Longrightarrow> size a < size obj"
  by (cases obj) (auto split: option.splits dest: size_map_of)

lemma size_elem: "x \<in> set xs \<Longrightarrow> size x < Suc (size_list size xs)"
  by (simp add: less_Suc_eq_le size_list_estimation')

lemma size_entry:
  "(k, v) \<in> set d \<Longrightarrow> size v < Suc (size_list (size_prod (\<lambda>_. 0) size) d)"
  by (induction d) auto

text \<open>
  The results of a traversal from left to right: it stops at the first element that
  raises, and what was done before stays done.
\<close>

fun sequence :: "'a res list \<Rightarrow> 'a list res" where
  "sequence [] = (Inr [], [])"
| "sequence ((Inl e, t) # rs) = (Inl e, t)"
| "sequence ((Inr x, t) # rs) =
     (case sequence rs of
        (Inl e, t') \<Rightarrow> (Inl e, t @ t')
      | (Inr xs, t') \<Rightarrow> (Inr (x # xs), t @ t'))"

function recursively_instantiate :: "env \<Rightarrow> pyval \<Rightarrow> pyval res" where
  "recursively_instantiate E obj =
     (if is_module_spec obj then
        (case getitem obj ''module'' of
           Inl e \<Rightarrow> (Inl e, [])
         | Inr m \<Rightarrow>
        (case getitem obj ''name'' of
           Inl e \<Rightarrow> (Inl e, [])
         | Inr n \<Rightarrow>
        (case getitem obj ''args'' of
           Inl e \<Rightarrow> (Inl e, [])
         | Inr a \<Rightarrow>
        (case recursively_instantiate E a of
           (Inl e, t1) \<Rightarrow> (Inl e, t1)
         | (Inr a', t1) \<Rightarrow>
        (case getitem obj ''kwargs'' of
           Inl e \<Rightarrow> (Inl e, t1)
         | Inr kw \<Rightarrow>
        (case recursively_instantiate E kw of
           (Inl e, t2) \<Rightarrow> (Inl e, t1 @ t2)
         | (Inr kw', t2) \<Rightarrow>
        (case instantiate E (ModuleSpec m n a' kw') of
           (Inl e, t3) \<Rightarrow> (Inl e, t1 @ t2 @ t3)
         | (Inr b, t3) \<Rightarrow>
        (case call E b [] [] of
           (r, t4) \<Rightarrow> (r, t1 @ t2 @ t3 @ t4)))))))))
      else
        (case obj of
           PDict d \<Rightarrow>
             (case sequence (map (\<lambda>(k, v). case recursively_instantiate E v of
                                              (Inl e, t) \<Rightarrow> (Inl e, t)
                                            | (Inr v', t) \<Rightarrow> (Inr (k, v'), t)) d) of
                (Inl e, t) \<Rightarrow> (Inl e, t)
              | (Inr d', t) \<Rightarrow> (Inr (PDict d'), t))
         | PList xs \<Rightarrow>
             (case sequence (map (recursively_instantiate E) xs) of
                (Inl e, t) \<Rightarrow> (Inl e, t)
              | (Inr ys, t) \<Rightarrow> (Inr (PList ys), t))
         | PTuple xs \<Rightarrow>
             (case sequence (map (recursively_instantiate E) xs) of
                (Inl e, t) \<Rightarrow> (Inl e, t)
              | (Inr ys, t) \<Rightarrow> (Inr (PTuple ys), t))
         | _ \<Rightarrow> (Inr obj, [])))"
  by pat_completeness auto
termination
proof (relation "measure (\<lambda>(E, v). size v)", goal_cases)
  case 1
  show ?case by simp
next
  case (2 E obj m n a)
  then show ?case by (simp add: size_getitem)
next
  case (3 E obj m n a r a' t1 kw)
  then show ?case by (simp add: size_getitem)
next
  case (4 E obj xs x)
  then show ?case by (simp add: size_elem)
next
  case (5 E obj xs x)
  then show ?case by (simp add: size_elem)
next
  case (6 E obj d kv k v)
  then show ?case using size_entry [of k v d] by auto
qed

declare recursively_instantiate.simps [simp del]

section \<open>A concrete environment\<close>

text \<open>
  One module \<^verbatim>\<open>math\<close> with one function \<^verbatim>\<open>Add(a, b, offset=0)\<close>, used to run the
  definitions on concrete inputs.
\<close>

definition env_math :: env where
  "env_math =
     \<lparr> import_from = (\<lambda>m n. if m = ''math'' \<and> n = ''Add'' then Some (PFunc 0) else None),
       full_name = (\<lambda>f. if f = 0 then Some (''math'', ''Add'') else None),
       call_fn = (\<lambda>f args kw.
          case (f, args) of
            (0, [PInt a, PInt b]) \<Rightarrow>
              Inr (PInt (a + b + (case map_of kw ''offset'' of Some (PInt c) \<Rightarrow> c | _ \<Rightarrow> 0)))
          | _ \<Rightarrow> Inl TypeError) \<rparr>"


section \<open>The shape of a spec\<close>

definition spec_fields :: "string set" where
  "spec_fields = {''module'', ''name'', ''args'', ''kwargs''}"





lemma spec_keys_PDict: "spec_keys (PDict d) = Inr (set (map fst d) = spec_fields)"
  by (simp add: spec_fields_def)


lemma getitem_in_keys:
  "k \<in> set (map fst d) \<Longrightarrow> \<exists>v. getitem (PDict d) k = Inr v"
  by (auto simp: map_of_eq_None_iff split: option.splits) 

lemma instantiate_spec_trace:
  assumes "set (map fst d) = spec_fields"
  shows "\<exists>m n r. getitem (PDict d) ''module'' = Inr m \<and> getitem (PDict d) ''name'' = Inr n
            \<and> instantiate E (PDict d) = (r, [Resolve m n]) \<and> r \<noteq> Inl ValueError_spec"
proof -
  have k: "''module'' \<in> set (map fst d)" "''name'' \<in> set (map fst d)"
       "''args'' \<in> set (map fst d)" "''kwargs'' \<in> set (map fst d)"
    using assms by (simp_all add: spec_fields_def)
  obtain m n a kw where g: "getitem (PDict d) ''module'' = Inr m" "getitem (PDict d) ''name'' = Inr n"
     "getitem (PDict d) ''args'' = Inr a" "getitem (PDict d) ''kwargs'' = Inr kw"
    using k getitem_in_keys by meson
  have t: "snd (import_from_string E m n) = [Resolve m n]"
    by (cases "(E, m, n)" rule: import_from_string.cases) (auto split: option.splits)
  have p: "partial c a kw \<noteq> Inl ValueError_spec" for c
    by (cases a; cases kw) (auto simp: partial_def split: sum.splits)
  have i: "fst (import_from_string E m n) \<noteq> Inl ValueError_spec"
    by (cases "(E, m, n)" rule: import_from_string.cases) (auto split: option.splits)
  show ?thesis
    using g t p i assms
    apply (simp only: instantiate.simps spec_keys_PDict)
    apply (cases "import_from_string E m n")
    apply (auto split: sum.splits)
    done
qed

text \<open>
  Claim C8. A dictionary whose key set is not exactly \<open>module\<close>, \<open>name\<close>, \<open>args\<close>,
  \<open>kwargs\<close> makes \<open>instantiate\<close> raise the \<^verbatim>\<open>ValueError\<close> of line 66, and nothing has been
  looked up by then (the trace is empty). A dictionary with exactly these keys passes the
  test: the lookup of its \<open>module\<close> and \<open>name\<close> is the one thing that happens, and whatever
  \<open>instantiate\<close> then returns or raises is not that \<^verbatim>\<open>ValueError\<close>.
\<close>

theorem instantiate_shape_check:
  "(set (map fst d) \<noteq> spec_fields \<longrightarrow> instantiate E (PDict d) = (Inl ValueError_spec, []))
   \<and> (set (map fst d) = spec_fields \<longrightarrow>
        (\<exists>m n r. getitem (PDict d) ''module'' = Inr m \<and> getitem (PDict d) ''name'' = Inr n
            \<and> instantiate E (PDict d) = (r, [Resolve m n]) \<and> r \<noteq> Inl ValueError_spec))"
proof (intro conjI impI)
  assume "set (map fst d) \<noteq> spec_fields"
  then show "instantiate E (PDict d) = (Inl ValueError_spec, [])"
    by (simp add: spec_fields_def)
next
  assume "set (map fst d) = spec_fields"
  then show "\<exists>m n r. getitem (PDict d) ''module'' = Inr m \<and> getitem (PDict d) ''name'' = Inr n
            \<and> instantiate E (PDict d) = (r, [Resolve m n]) \<and> r \<noteq> Inl ValueError_spec"
    by (rule instantiate_spec_trace)
qed

theorem instantiate_shape_check_witness:
  "instantiate env_math (PDict [(''module'', PStr ''ns''), (''name'', PStr ''Name''), (''args'', PList [])])
     = (Inl ValueError_spec, [])
   \<and> (\<exists>r. instantiate env_math (ModuleSpec (PStr ''math'') (PStr ''Add'') (PTuple []) (PDict []))
          = (r, [Resolve (PStr ''math'') (PStr ''Add'')]) \<and> r \<noteq> Inl ValueError_spec)"
proof -
  let ?bad = "[(''module'', PStr ''ns''), (''name'', PStr ''Name''), (''args'', PList [])]"
  let ?good = "[(''module'', PStr ''math''), (''name'', PStr ''Add''), (''args'', PTuple []),
                (''kwargs'', PDict [])]"
  have "''kwargs'' \<in> spec_fields" "''kwargs'' \<notin> set (map fst ?bad)"
    by (simp_all add: spec_fields_def)
  then have bad: "set (map fst ?bad) \<noteq> spec_fields"
    by blast
  have good: "set (map fst ?good) = spec_fields"
    by (simp add: spec_fields_def)
  from bad instantiate_shape_check [of ?bad env_math]
  have 1: "instantiate env_math (PDict ?bad) = (Inl ValueError_spec, [])"
    by blast
  from good instantiate_shape_check [of ?good env_math]
  obtain m n r where 2: "getitem (PDict ?good) ''module'' = Inr m"
    "getitem (PDict ?good) ''name'' = Inr n"
    "instantiate env_math (PDict ?good) = (r, [Resolve m n])" "r \<noteq> Inl ValueError_spec"
    by blast
  from 2(1,2) have "m = PStr ''math''" "n = PStr ''Add''"
    by simp_all
  with 1 2(3,4) show ?thesis
    unfolding ModuleSpec_def by blast
qed






section \<open>Calling a binding\<close>


lemma keys_dict_set: "fst ` set (dict_set d k v) = insert k (fst ` set d)"
  by (induction d k v rule: dict_set.induct) auto


lemma dict_merge_empty: "dict_merge kw [] = kw"
  by simp






section \<open>Creating, resolving and calling\<close>






section \<open>Rendering\<close>

lemma to_string_ModuleSpec:
  "to_string fmt (ModuleSpec m n a kw) =
     (case iterate a of
        Inl e \<Rightarrow> Inl e
      | Inr items \<Rightarrow>
     (case as_strings items of
        Inl e \<Rightarrow> Inl e
      | Inr ss \<Rightarrow>
     (case kw of
        PDict kvs \<Rightarrow>
          Inr (py_format fmt m @ '':'' @ py_format fmt n @ ''('' @ join '', '' ss
               @ (if truthy a \<and> truthy kw then '', '' else '''')
               @ join '', '' (map (\<lambda>(k, v). k @ ''='' @ py_format fmt v) kvs) @ '')'')
      | _ \<Rightarrow> Inl AttributeError)))"
proof -
  have g: "getitem (ModuleSpec m n a kw) ''module'' = Inr m"
    "getitem (ModuleSpec m n a kw) ''name'' = Inr n"
    "getitem (ModuleSpec m n a kw) ''args'' = Inr a"
    "getitem (ModuleSpec m n a kw) ''kwargs'' = Inr kw"
    by (simp_all add: ModuleSpec_def)
  show ?thesis
    unfolding to_string_def g sum.case by (rule refl)
qed

text \<open>
  Claim C3. The design document's example does not return: \<^verbatim>\<open>', '.join(spec['args'])\<close>
  needs strings, and the arguments \<open>1, 2\<close> are integers, so \<open>to_string\<close> raises
  \<^verbatim>\<open>TypeError\<close> before the keywords (which the f-string would format) are reached.
\<close>

theorem to_string_int_args:
  "create E (PStr ''ns:Name'') [PInt 1, PInt 2] [(''x'', PInt 3)]
     = Inr (ModuleSpec (PStr ''ns'') (PStr ''Name'') (PTuple [PInt 1, PInt 2]) (PDict [(''x'', PInt 3)]))
   \<and> to_string fmt (ModuleSpec (PStr ''ns'') (PStr ''Name'') (PTuple [PInt 1, PInt 2])
          (PDict [(''x'', PInt 3)])) = Inl TypeError"
  by (simp add: to_string_ModuleSpec)

text \<open>With the positional arguments given as strings the rendering is the expected one.\<close>

lemma show_int_3: "show_int 3 = ''3''"
  by (simp add: show_int_def show_nat.simps)

lemma to_string_str_args:
  "to_string fmt (ModuleSpec (PStr ''ns'') (PStr ''Name'') (PTuple [PStr ''1'', PStr ''2''])
          (PDict [(''x'', PInt 3)])) = Inr ''ns:Name(1, 2, x=3)''"
  by (simp add: to_string_ModuleSpec show_int_3)


section \<open>Walking containers\<close>


lemma not_spec_simps [simp]:
  "\<not> is_module_spec PNone" "\<not> is_module_spec (PBool b)" "\<not> is_module_spec (PInt i)"
  "\<not> is_module_spec (PStr s)" "\<not> is_module_spec (PList xs)" "\<not> is_module_spec (PTuple xs)"
  "\<not> is_module_spec (PSet xs)" "\<not> is_module_spec (PFunc f)"
  "\<not> is_module_spec (PPartial g a k)" "\<not> is_module_spec (PObj n)"
  by (simp_all add: is_module_spec_def)











section \<open>Materializing a spec\<close>


lemma ri_spec_args_fail:
  assumes "is_module_spec obj"
    and "getitem obj ''module'' = Inr m" and "getitem obj ''name'' = Inr n"
    and "getitem obj ''args'' = Inr a"
    and "recursively_instantiate E a = (Inl e, ta)"
  shows "recursively_instantiate E obj = (Inl e, ta)"
  by (subst recursively_instantiate.simps) (simp add: assms)

lemma ri_spec_kwargs_fail:
  assumes "is_module_spec obj"
    and "getitem obj ''module'' = Inr m" and "getitem obj ''name'' = Inr n"
    and "getitem obj ''args'' = Inr a" and "getitem obj ''kwargs'' = Inr kw"
    and "recursively_instantiate E a = (Inr a', ta)"
    and "recursively_instantiate E kw = (Inl e, tk)"
  shows "recursively_instantiate E obj = (Inl e, ta @ tk)"
  by (subst recursively_instantiate.simps) (simp add: assms)




section \<open>Rebuilding containers\<close>







section \<open>Properties of the override\<close>





































end
